theory Spec2Isabelle
  imports Main "HOL-Library.Word"
begin

section \<open>Catalog Management System: the script of the web application\<close>

text \<open>
  This theory embeds \<^verbatim>\<open>src/Web_App_Version/script.js\<close>. The script keeps the catalog
  in the global array \<^verbatim>\<open>catalogData\<close>, the id being edited in the global
  \<^verbatim>\<open>editingItemId\<close>, and everything else in properties of DOM elements. Every function
  of the script becomes a function from the state before the call to the state after it.
\<close>

subsection \<open>Strings\<close>

text \<open>
  A JavaScript string is a sequence of UTF-16 code units. \<^verbatim>\<open>String.prototype.trim\<close>
  removes from both ends the code units that ECMAScript calls WhiteSpace or
  LineTerminator; all of them lie in the Basic Multilingual Plane, so each is one code unit.
\<close>

type_synonym code_unit = "16 word"
type_synonym js_string = "code_unit list"

definition js :: "string \<Rightarrow> js_string" where
  "js cs = map of_char cs"

definition isWhiteSpace :: "code_unit \<Rightarrow> bool" where
  "isWhiteSpace c \<longleftrightarrow>
     c = 0x0009 \<or> c = 0x000A \<or> c = 0x000B \<or> c = 0x000C \<or> c = 0x000D \<or> c = 0x0020 \<or>
     c = 0x00A0 \<or> c = 0x1680 \<or> (0x2000 \<le> c \<and> c \<le> 0x200A) \<or> c = 0x2028 \<or> c = 0x2029 \<or>
     c = 0x202F \<or> c = 0x205F \<or> c = 0x3000 \<or> c = 0xFEFF"

definition trim :: "js_string \<Rightarrow> js_string" where
  "trim str = rev (dropWhile isWhiteSpace (rev (dropWhile isWhiteSpace str)))"

subsection \<open>Items and the state of the page\<close>

text \<open>
  An item is an object \<^verbatim>\<open>{id, name, description}\<close>. Ids are integers (the script
  computes them with \<^verbatim>\<open>Math.max(...) + 1\<close>; the model takes them as unbounded
  integers, which is what JavaScript numbers are below \<open>2^53\<close>).
\<close>

record item =
  item_id :: int
  name :: js_string
  description :: js_string

text \<open>
  What \<^verbatim>\<open>itemsList.innerHTML\<close> holds: nothing yet, the message of the empty catalog,
  one card per item in the order of the array, or the message of a failed load. The HTML
  text of a card (with the name and description passed through \<^verbatim>\<open>escapeHtml\<close>) is
  represented by the item it is built from.
\<close>

datatype list_view = NotRendered | NoItemsMessage | Cards "item list" | LoadErrorMessage

text \<open>
  The state: the two globals of the script, the properties of the DOM elements that the
  script reads or writes, and the messages shown with \<^verbatim>\<open>alert\<close>, oldest first.
  \<open>itemDetails\<close> is the item whose rendering \<^verbatim>\<open>itemDetails.innerHTML\<close> holds.
  Left out, since the script only writes them: \<^verbatim>\<open>itemIdInput.value\<close>, the scroll
  position and the console.
\<close>

record state =
  catalogData :: "item list"
  editingItemId :: "int option"
  itemNameInput :: js_string
  itemDescriptionInput :: js_string
  formTitle :: string
  submitBtn :: string
  cancelBtn_display :: string
  detailsSection_display :: string
  itemDetails :: "item option"
  itemsList :: list_view
  alerts :: "string list"


definition alert :: "string \<Rightarrow> state \<Rightarrow> state" where
  "alert msg s = s\<lparr>alerts := alerts s @ [msg]\<rparr>"

subsection \<open>Array methods\<close>

text \<open>
  \<^verbatim>\<open>Array.prototype.find\<close> is \<^const>\<open>find\<close> of the list library.
  \<^verbatim>\<open>Array.prototype.findIndex\<close> returns the index of the first element that satisfies
  the predicate, and \<open>-1\<close> when there is none.
\<close>

fun findIndex :: "('a \<Rightarrow> bool) \<Rightarrow> 'a list \<Rightarrow> int" where
  "findIndex P [] = - 1"
| "findIndex P (x # xs) =
     (if P x then 0 else (let i = findIndex P xs in if i = - 1 then - 1 else i + 1))"

text \<open>\<^verbatim>\<open>xs.splice(start, 1)\<close> for \<open>0 \<le> start\<close>: removes the element at that index, if any.\<close>

definition splice1 :: "int \<Rightarrow> 'a list \<Rightarrow> 'a list" where
  "splice1 start xs = take (nat start) xs @ drop (nat start + 1) xs"

text \<open>
  \<^verbatim>\<open>Math.max(...xs)\<close> on a non-empty argument list. (With no argument it is
  \<open>-Infinity\<close>; the script calls it only under the guard \<^verbatim>\<open>catalogData.length > 0\<close>.)
\<close>

fun Math_max :: "int list \<Rightarrow> int" where
  "Math_max (x # xs) = fold max xs x"

subsection \<open>Loading and rendering\<close>

definition renderList :: "state \<Rightarrow> state" where
  "renderList s =
     (if length (catalogData s) = 0 then s\<lparr>itemsList := NoItemsMessage\<rparr>
      else s\<lparr>itemsList := Cards (catalogData s)\<rparr>)"

text \<open>
  \<^verbatim>\<open>loadData\<close> fetches \<^verbatim>\<open>data.json\<close>. Its argument is what the fetch gave: a failure
  (the request or the parse threw, or the response was not ok), or the \<^verbatim>\<open>items\<close> property
  of the parsed data, absent or a list.
\<close>

datatype fetch_result = FetchFailed | Fetched "item list option"

definition loadData :: "fetch_result \<Rightarrow> state \<Rightarrow> state" where
  "loadData r s =
     (case r of
        FetchFailed \<Rightarrow> s\<lparr>itemsList := LoadErrorMessage\<rparr>
      | Fetched items \<Rightarrow>
          renderList (s\<lparr>catalogData := (case items of Some xs \<Rightarrow> xs | None \<Rightarrow> [])\<rparr>))"

definition saveData :: "state \<Rightarrow> state" where
  "saveData s = renderList s"

definition viewItemDetails :: "int \<Rightarrow> state \<Rightarrow> state" where
  "viewItemDetails i s =
     (case find (\<lambda>it. item_id it = i) (catalogData s) of
        None \<Rightarrow> alert ''Item not found'' s
      | Some it \<Rightarrow> s\<lparr>itemDetails := Some it, detailsSection_display := ''block''\<rparr>)"

definition closeDetails :: "state \<Rightarrow> state" where
  "closeDetails s = s\<lparr>detailsSection_display := ''none''\<rparr>"

subsection \<open>Validation and the operations on the catalog\<close>

text \<open>
  \<^verbatim>\<open>validateInput\<close> returns a boolean and, when it is false, has shown an alert. The
  arguments are the values of two text inputs, so they are strings, and \<^verbatim>\<open>!name\<close>
  holds exactly for the empty string.
\<close>

definition validateInput :: "js_string \<Rightarrow> js_string \<Rightarrow> state \<Rightarrow> bool \<times> state" where
  "validateInput nm descr s =
     (if nm = [] \<or> trim nm = [] then (False, alert ''Name field cannot be empty'' s)
      else if descr = [] \<or> trim descr = []
        then (False, alert ''Description field cannot be empty'' s)
      else (True, s))"

definition resetForm :: "state \<Rightarrow> state" where
  "resetForm s =
     s\<lparr>editingItemId := None, itemNameInput := [], itemDescriptionInput := [],
       formTitle := ''Add New Item'', submitBtn := ''Add Item'',
       cancelBtn_display := ''none''\<rparr>"

text \<open>The value of \<^verbatim>\<open>const newId\<close> in \<^verbatim>\<open>addItem\<close>, from the array at that moment.\<close>

definition newId :: "item list \<Rightarrow> int" where
  "newId xs = (if length xs > 0 then Math_max (map item_id xs) + 1 else 1)"

definition addItem :: "js_string \<Rightarrow> js_string \<Rightarrow> state \<Rightarrow> state" where
  "addItem nm descr s =
     (case validateInput nm descr s of
        (False, s1) \<Rightarrow> s1
      | (True, s1) \<Rightarrow>
          (let newItem = \<lparr>item_id = newId (catalogData s1), name = trim nm,
                          description = trim descr\<rparr>;
               s2 = s1\<lparr>catalogData := catalogData s1 @ [newItem]\<rparr>
           in resetForm (saveData s2)))"

definition editItem :: "int \<Rightarrow> state \<Rightarrow> state" where
  "editItem i s =
     (case find (\<lambda>it. item_id it = i) (catalogData s) of
        None \<Rightarrow> alert ''Item not found'' s
      | Some it \<Rightarrow>
          s\<lparr>editingItemId := Some i, itemNameInput := name it,
            itemDescriptionInput := description it,
            formTitle := ''Edit Item'', submitBtn := ''Update Item'',
            cancelBtn_display := ''inline-block''\<rparr>)"

definition updateItem :: "int \<Rightarrow> js_string \<Rightarrow> js_string \<Rightarrow> state \<Rightarrow> state" where
  "updateItem i nm descr s =
     (case validateInput nm descr s of
        (False, s1) \<Rightarrow> s1
      | (True, s1) \<Rightarrow>
          (let itemIndex = findIndex (\<lambda>it. item_id it = i) (catalogData s1)
           in if itemIndex = - 1 then alert ''Item not found'' s1
              else
                (let s2 = s1\<lparr>catalogData := (catalogData s1)
                             [nat itemIndex :=
                                \<lparr>item_id = i, name = trim nm, description = trim descr\<rparr>]\<rparr>
                 in resetForm (saveData s2))))"

text \<open>
  \<^verbatim>\<open>deleteItem\<close> asks \<^verbatim>\<open>confirm(...)\<close> first; the answer is the first argument of
  the model.
\<close>

definition deleteItem :: "bool \<Rightarrow> int \<Rightarrow> state \<Rightarrow> state" where
  "deleteItem confirmed i s =
     (if \<not> confirmed then s
      else
        (let itemIndex = findIndex (\<lambda>it. item_id it = i) (catalogData s)
         in if itemIndex = - 1 then alert ''Item not found'' s
            else
              (let s1 = saveData (s\<lparr>catalogData := splice1 itemIndex (catalogData s)\<rparr>)
               in if detailsSection_display s1 \<noteq> ''none'' then closeDetails s1 else s1)))"

subsection \<open>Event listeners\<close>

text \<open>
  The submit listener tests \<^verbatim>\<open>if (editingItemId)\<close>: \<^verbatim>\<open>null\<close> and the number
  \<open>0\<close> are both falsy.
\<close>

definition submit :: "state \<Rightarrow> state" where
  "submit s =
     (let nm = itemNameInput s; descr = itemDescriptionInput s
      in case editingItemId s of
           None \<Rightarrow> addItem nm descr s
         | Some i \<Rightarrow> if i \<noteq> 0 then updateItem i nm descr s else addItem nm descr s)"

text \<open>
  What can happen on the page: the form is submitted, the cancel button is clicked, a card
  or one of its buttons is clicked (the delete button with the answer given to the
  confirmation), the close button of the details is clicked, the user types into one of
  the two inputs.
\<close>

datatype event =
    Submit
  | Cancel
  | ClickCard int
  | ClickEdit int
  | ClickDelete int bool
  | ClickCloseDetails
  | TypeName js_string
  | TypeDescription js_string

fun handle :: "event \<Rightarrow> state \<Rightarrow> state" where
  "handle Submit s = submit s"
| "handle Cancel s = resetForm s"
| "handle (ClickCard i) s = viewItemDetails i s"
| "handle (ClickEdit i) s = editItem i s"
| "handle (ClickDelete i answer) s = deleteItem answer i s"
| "handle ClickCloseDetails s = closeDetails s"
| "handle (TypeName v) s = s\<lparr>itemNameInput := v\<rparr>"
| "handle (TypeDescription v) s = s\<lparr>itemDescriptionInput := v\<rparr>"

definition run :: "event list \<Rightarrow> state \<Rightarrow> state" where
  "run evs s = fold handle evs s"

subsection \<open>Example states\<close>

text \<open>
  A page that has just been loaded, with an empty catalog and the form and the details in
  the state \<^verbatim>\<open>resetForm\<close> and \<^verbatim>\<open>closeDetails\<close> leave them in.
\<close>

definition page0 :: state where
  "page0 = \<lparr>catalogData = [], editingItemId = None, itemNameInput = [],
     itemDescriptionInput = [], formTitle = ''Add New Item'', submitBtn = ''Add Item'',
     cancelBtn_display = ''none'', detailsSection_display = ''none'', itemDetails = None,
     itemsList = NotRendered, alerts = []\<rparr>"

text \<open>The catalog after adding a widget and a gadget: ids 1 and 2.\<close>

definition two_items :: state where
  "two_items =
     addItem (js ''Gadget'') (js ''Another'') (addItem (js ''Widget'') (js ''A thing'') page0)"

text \<open>A catalog loaded from seed data whose only item has id 0.\<close>

definition seeded_zero :: state where
  "seeded_zero =
     loadData (Fetched (Some [\<lparr>item_id = 0, name = js ''Zero'', description = js ''Seeded''\<rparr>]))
       page0"

text \<open>The two-item catalog with the details of item 2 open.\<close>

definition viewing_two :: state where
  "viewing_two = viewItemDetails 2 two_items"


lemmas eval_defs = page0_def two_items_def seeded_zero_def viewing_two_def
  addItem_def validateInput_def trim_def js_def isWhiteSpace_def newId_def
  saveData_def renderList_def resetForm_def alert_def deleteItem_def splice1_def closeDetails_def
  updateItem_def editItem_def viewItemDetails_def submit_def run_def loadData_def Let_def

section \<open>Facts about the library functions\<close>

lemma all_dropWhile: "(\<forall>x\<in>set (dropWhile P xs). P x) \<longleftrightarrow> (\<forall>x\<in>set xs. P x)"
  by (induction xs) auto

lemma trim_Nil_iff: "trim str = [] \<longleftrightarrow> (\<forall>c\<in>set str. isWhiteSpace c)"
  by (simp add: trim_def all_dropWhile)

lemma trim_nonempty: "trim str \<noteq> [] \<Longrightarrow> str \<noteq> []"
  by (auto simp: trim_def)

lemma findIndex_ge: "- 1 \<le> findIndex P xs"
  by (induction xs) (auto simp: Let_def)

lemma findIndex_absent: "findIndex P xs = - 1 \<longleftrightarrow> (\<forall>x\<in>set xs. \<not> P x)"
proof (induction xs)
  case Nil
  then show ?case by simp
next
  case (Cons x xs)
  have "findIndex P xs + 1 \<noteq> - 1" using findIndex_ge [of P xs] by arith
  with Cons show ?case by (auto simp: Let_def)
qed

lemma findIndex_found:
  "\<exists>x\<in>set xs. P x \<Longrightarrow>
     0 \<le> findIndex P xs \<and> nat (findIndex P xs) < length xs \<and> P (xs ! nat (findIndex P xs))
     \<and> (\<forall>j < nat (findIndex P xs). \<not> P (xs ! j))"
proof (induction xs)
  case Nil
  then show ?case by simp
next
  case (Cons x xs)
  show ?case
  proof (cases "P x")
    case True
    then show ?thesis by simp
  next
    case False
    with Cons.prems have ex: "\<exists>x\<in>set xs. P x" by simp
    from Cons.IH [OF ex] have ih: "0 \<le> findIndex P xs" "nat (findIndex P xs) < length xs"
      "P (xs ! nat (findIndex P xs))" "\<forall>j < nat (findIndex P xs). \<not> P (xs ! j)" by auto
    have n: "nat (findIndex P xs + 1) = Suc (nat (findIndex P xs))" using ih(1) by simp
    show ?thesis using False ih n by (auto simp: Let_def nth_Cons split: nat.splits)
  qed
qed






section \<open>What each operation does to the catalog\<close>

lemma validateInput_valid:
  "trim nm \<noteq> [] \<Longrightarrow> trim descr \<noteq> [] \<Longrightarrow> validateInput nm descr s = (True, s)"
  using trim_nonempty [of nm] trim_nonempty [of descr] by (simp add: validateInput_def)




lemma updateItem_valid:
  "trim nm \<noteq> [] \<Longrightarrow> trim descr \<noteq> [] \<Longrightarrow>
     catalogData (updateItem i nm descr s) =
       (if findIndex (\<lambda>it. item_id it = i) (catalogData s) = - 1 then catalogData s
        else (catalogData s)[nat (findIndex (\<lambda>it. item_id it = i) (catalogData s)) :=
               \<lparr>item_id = i, name = trim nm, description = trim descr\<rparr>])"
  by (simp add: updateItem_def validateInput_valid saveData_def renderList_def resetForm_def
      alert_def Let_def)

lemma deleteItem_catalogData:
  "catalogData (deleteItem answer i s) =
     (if answer \<and> findIndex (\<lambda>it. item_id it = i) (catalogData s) \<noteq> - 1
      then splice1 (findIndex (\<lambda>it. item_id it = i) (catalogData s)) (catalogData s)
      else catalogData s)"
  by (simp add: deleteItem_def saveData_def renderList_def closeDetails_def alert_def Let_def)









section \<open>The claims\<close>

subsection \<open>C1: delete, then find; reuse of ids\<close>




subsection \<open>C2: the id of a new item\<close>



subsection \<open>C3: an add with a blank field\<close>

text \<open>
  C3: when the name is empty or consists of white space only, \<open>addItem\<close> shows the
  alert of the empty name and changes nothing else; when the name is not blank and the
  description is, it shows the alert of the empty description and changes nothing else.
  In both cases the catalog is the one before the call.
\<close>

theorem addItem_rejects_blank:
  "((nm = [] \<or> (\<forall>c\<in>set nm. isWhiteSpace c)) \<longrightarrow>
      addItem nm descr s = s\<lparr>alerts := alerts s @ [''Name field cannot be empty'']\<rparr> \<and>
      catalogData (addItem nm descr s) = catalogData s) \<and>
   (\<not> (nm = [] \<or> (\<forall>c\<in>set nm. isWhiteSpace c)) \<and>
    (descr = [] \<or> (\<forall>c\<in>set descr. isWhiteSpace c)) \<longrightarrow>
      addItem nm descr s = s\<lparr>alerts := alerts s @ [''Description field cannot be empty'']\<rparr> \<and>
      catalogData (addItem nm descr s) = catalogData s)"
proof -
  have n: "(nm = [] \<or> (\<forall>c\<in>set nm. isWhiteSpace c)) \<longleftrightarrow> trim nm = []"
    by (auto simp: trim_Nil_iff)
  have d: "(descr = [] \<or> (\<forall>c\<in>set descr. isWhiteSpace c)) \<longleftrightarrow> trim descr = []"
    by (auto simp: trim_Nil_iff)
  have e: "trim [] = []" by (simp add: trim_def)
  show ?thesis
    unfolding n d by (auto simp: addItem_def validateInput_def alert_def e)
qed

text \<open>
  Instances: a name of three spaces, both fields empty, and a description made of a tab,
  a no-break space and an ideographic space.
\<close>

theorem addItem_rejects_blank_witness:
  "addItem (js ''   '') (js ''A thing'') two_items =
     two_items\<lparr>alerts := [''Name field cannot be empty'']\<rparr> \<and>
   addItem [] [] two_items = two_items\<lparr>alerts := [''Name field cannot be empty'']\<rparr> \<and>
   addItem (js ''Widget'') [0x0009, 0x00A0, 0x3000] two_items =
     two_items\<lparr>alerts := [''Description field cannot be empty'']\<rparr> \<and>
   catalogData (addItem (js ''Widget'') [0x0009, 0x00A0, 0x3000] two_items) = catalogData two_items"
proof -
  have a: "alerts two_items = []" by (simp add: eval_defs)
  have w: "\<forall>c\<in>set (js ''   ''). isWhiteSpace c" "\<not> (\<forall>c\<in>set (js ''Widget''). isWhiteSpace c)"
    "\<forall>c\<in>set [0x0009, 0x00A0, 0x3000]. isWhiteSpace c" "js ''Widget'' \<noteq> []"
    by (simp_all add: js_def isWhiteSpace_def)
  show ?thesis
    using w
      addItem_rejects_blank [of "js ''   ''" "js ''A thing''" two_items]
      addItem_rejects_blank [of "[]" "[]" two_items]
      addItem_rejects_blank [of "js ''Widget''" "[0x0009, 0x00A0, 0x3000]" two_items]
    by (simp add: a)
qed

subsection \<open>C4: an update of an id that is not stored\<close>

text \<open>
  C4: with a name and a description that are not empty after trimming, \<open>updateItem\<close>
  on an id that no stored item has shows the alert \<open>Item not found\<close> and changes
  nothing else; the catalog is the one before the call.
\<close>

theorem updateItem_absent_id:
  assumes "trim nm \<noteq> []" and "trim descr \<noteq> []"
    and "\<forall>it\<in>set (catalogData s). item_id it \<noteq> i"
  shows "updateItem i nm descr s = s\<lparr>alerts := alerts s @ [''Item not found'']\<rparr> \<and>
    catalogData (updateItem i nm descr s) = catalogData s"
proof -
  have "findIndex (\<lambda>it. item_id it = i) (catalogData s) = - 1"
    using assms(3) by (simp add: findIndex_absent)
  then show ?thesis
    using assms(1,2) by (simp add: updateItem_def validateInput_valid alert_def)
qed

text \<open>
  An instance: the update of id 3 in the catalog with ids 1 and 2.
\<close>

theorem updateItem_absent_id_witness:
  "trim (js ''Thing'') \<noteq> [] \<and> trim (js ''New text'') \<noteq> [] \<and>
   map item_id (catalogData two_items) = [1, 2] \<and>
   updateItem 3 (js ''Thing'') (js ''New text'') two_items =
     two_items\<lparr>alerts := [''Item not found'']\<rparr> \<and>
   catalogData (updateItem 3 (js ''Thing'') (js ''New text'') two_items) = catalogData two_items"
proof -
  have h: "trim (js ''Thing'') \<noteq> []" "trim (js ''New text'') \<noteq> []"
    "\<forall>it\<in>set (catalogData two_items). item_id it \<noteq> 3"
    by (simp_all add: eval_defs)
  have a: "alerts two_items = []" "map item_id (catalogData two_items) = [1, 2]"
    by (simp_all add: eval_defs)
  show ?thesis
    using h(1,2) a(2) updateItem_absent_id [OF h] by (simp add: a(1))
qed

subsection \<open>C5: add, then find\<close>



subsection \<open>C6: the ids are pairwise distinct\<close>



subsection \<open>C7: an update replaces in place\<close>

text \<open>
  C7: when the inputs are valid and some stored item has id \<open>i\<close>, \<open>updateItem\<close>
  replaces the first item with that id, at its index \<open>k\<close>, by the item with the same
  id and the trimmed name and description; the catalog keeps its length and every item
  at another index stays as it was.
\<close>

theorem updateItem_in_place:
  assumes "trim nm \<noteq> []" and "trim descr \<noteq> []"
    and "\<exists>it\<in>set (catalogData s). item_id it = i"
  shows "\<exists>k<length (catalogData s).
    item_id (catalogData s ! k) = i \<and>
    (\<forall>j<k. item_id (catalogData s ! j) \<noteq> i) \<and>
    catalogData (updateItem i nm descr s) =
      (catalogData s)[k := \<lparr>item_id = i, name = trim nm, description = trim descr\<rparr>] \<and>
    length (catalogData (updateItem i nm descr s)) = length (catalogData s) \<and>
    catalogData (updateItem i nm descr s) ! k =
      \<lparr>item_id = i, name = trim nm, description = trim descr\<rparr> \<and>
    (\<forall>j<length (catalogData s). j \<noteq> k \<longrightarrow>
       catalogData (updateItem i nm descr s) ! j = catalogData s ! j)"
proof -
  let ?P = "\<lambda>it. item_id it = i"
  let ?k = "nat (findIndex ?P (catalogData s))"
  let ?new = "\<lparr>item_id = i, name = trim nm, description = trim descr\<rparr>"
  from findIndex_found [of "catalogData s" ?P, OF assms(3)]
  have k: "?k < length (catalogData s)" "item_id (catalogData s ! ?k) = i"
    "\<forall>j<?k. item_id (catalogData s ! j) \<noteq> i"
    by simp_all
  have "findIndex ?P (catalogData s) \<noteq> - 1"
    using assms(3) by (simp add: findIndex_absent)
  then have u: "catalogData (updateItem i nm descr s) = (catalogData s)[?k := ?new]"
    using assms(1,2) by (simp add: updateItem_valid)
  have l: "length (catalogData (updateItem i nm descr s)) = length (catalogData s)"
    by (simp add: u)
  have n: "catalogData (updateItem i nm descr s) ! ?k = ?new"
    using k(1) by (simp add: u)
  have o: "\<forall>j<length (catalogData s). j \<noteq> ?k \<longrightarrow>
       catalogData (updateItem i nm descr s) ! j = catalogData s ! j"
    by (simp add: u)
  from k u l n o show ?thesis by blast
qed

text \<open>
  An instance: the update of item 2 in the catalog with ids 1 and 2 leaves item 1 and
  the order as they were.
\<close>

theorem updateItem_in_place_witness:
  "trim (js '' Gizmo'') \<noteq> [] \<and> trim (js ''Third'') \<noteq> [] \<and>
   catalogData two_items =
     [\<lparr>item_id = 1, name = js ''Widget'', description = js ''A thing''\<rparr>,
      \<lparr>item_id = 2, name = js ''Gadget'', description = js ''Another''\<rparr>] \<and>
   catalogData (updateItem 2 (js '' Gizmo'') (js ''Third'') two_items) =
     [\<lparr>item_id = 1, name = js ''Widget'', description = js ''A thing''\<rparr>,
      \<lparr>item_id = 2, name = js ''Gizmo'', description = js ''Third''\<rparr>]"
proof -
  have h: "trim (js '' Gizmo'') \<noteq> []" "trim (js ''Third'') \<noteq> []"
    by (simp_all add: trim_def js_def isWhiteSpace_def)
  have t: "trim (js '' Gizmo'') = js ''Gizmo''" "trim (js ''Third'') = js ''Third''"
    by (simp_all add: trim_def js_def isWhiteSpace_def)
  have s: "catalogData two_items =
     [\<lparr>item_id = 1, name = js ''Widget'', description = js ''A thing''\<rparr>,
      \<lparr>item_id = 2, name = js ''Gadget'', description = js ''Another''\<rparr>]"
    by (simp add: eval_defs)
  have e: "\<exists>it\<in>set (catalogData two_items). item_id it = 2" by (simp add: s)
  from updateItem_in_place [OF h e] obtain k where
    k: "k < length (catalogData two_items)" "item_id (catalogData two_items ! k) = 2"
      "catalogData (updateItem 2 (js '' Gizmo'') (js ''Third'') two_items) =
        (catalogData two_items)[k := \<lparr>item_id = 2, name = js ''Gizmo'', description = js ''Third''\<rparr>]"
    unfolding t by blast
  from k(1,2) have "k = 1" by (auto simp: s less_Suc_eq)
  with k(3) h s show ?thesis by simp
qed

subsection \<open>C8: a declined confirmation\<close>

text \<open>
  C8: when the answer to the confirmation is no, \<open>deleteItem\<close> returns the state it
  was given: the catalog, the form, the details and the alerts are all unchanged.
\<close>

theorem deleteItem_declined: "deleteItem False i s = s"
  by (simp add: deleteItem_def)

text \<open>
  An instance: a declined delete of item 1 while the details of item 2 are open.
\<close>

theorem deleteItem_declined_witness:
  "deleteItem False 1 viewing_two = viewing_two \<and>
   map item_id (catalogData (deleteItem False 1 viewing_two)) = [1, 2]"
proof -
  have "map item_id (catalogData viewing_two) = [1, 2]" by (simp add: eval_defs)
  with deleteItem_declined [of 1 viewing_two] show ?thesis by simp
qed

subsection \<open>C9: submitting the form while item 0 is being edited\<close>



subsection \<open>C10: a delete closes the details\<close>

text \<open>
  C10: when a confirmed delete finds its item, the details section is hidden afterwards,
  whatever item it was showing; the content of the details is not touched.
\<close>

theorem deleteItem_closes_details:
  assumes "\<exists>it\<in>set (catalogData s). item_id it = i"
  shows "detailsSection_display (deleteItem True i s) = ''none'' \<and>
    itemDetails (deleteItem True i s) = itemDetails s"
proof -
  have "findIndex (\<lambda>it. item_id it = i) (catalogData s) \<noteq> - 1"
    using assms by (simp add: findIndex_absent)
  then show ?thesis
    by (simp add: deleteItem_def saveData_def renderList_def closeDetails_def Let_def)
qed

text \<open>
  An instance: the details show item 2 and item 1 is deleted; the details are hidden
  although item 2 is still in the catalog.
\<close>

theorem deleteItem_closes_details_witness:
  "detailsSection_display viewing_two = ''block'' \<and>
   itemDetails viewing_two =
     Some \<lparr>item_id = 2, name = js ''Gadget'', description = js ''Another''\<rparr> \<and>
   catalogData (deleteItem True 1 viewing_two) =
     [\<lparr>item_id = 2, name = js ''Gadget'', description = js ''Another''\<rparr>] \<and>
   detailsSection_display (deleteItem True 1 viewing_two) = ''none'' \<and>
   itemDetails (deleteItem True 1 viewing_two) =
     Some \<lparr>item_id = 2, name = js ''Gadget'', description = js ''Another''\<rparr>"
proof -
  have v: "detailsSection_display viewing_two = ''block''"
    "itemDetails viewing_two =
       Some \<lparr>item_id = 2, name = js ''Gadget'', description = js ''Another''\<rparr>"
    "catalogData viewing_two =
     [\<lparr>item_id = 1, name = js ''Widget'', description = js ''A thing''\<rparr>,
      \<lparr>item_id = 2, name = js ''Gadget'', description = js ''Another''\<rparr>]"
    by (simp_all add: eval_defs)
  have e: "\<exists>it\<in>set (catalogData viewing_two). item_id it = 1" by (simp add: v(3))
  have c: "catalogData (deleteItem True 1 viewing_two) =
     [\<lparr>item_id = 2, name = js ''Gadget'', description = js ''Another''\<rparr>]"
    by (simp add: deleteItem_catalogData v(3) splice1_def)
  from deleteItem_closes_details [OF e] v c show ?thesis by simp
qed

end
